theory Spec2Isabelle
  imports Main
begin

section \<open>The verification-code cache of webook (internal/repository/cache/code.go)\<close>

text \<open>
  The Go file defines one interface, \<open>CodeCache\<close>, with two implementations:
  \<open>RedisCodeCache\<close>, which hands the work to two Lua scripts run by Redis, and
  \<open>LocalCodeCache\<close>, which keeps the records in a go-cache instance behind a mutex.
  This theory embeds the Go functions as HOL functions. A call that mutates the cache
  takes the cache and returns the new one; the mutex makes every call of the local
  backend one atomic transition, so a call is a function of the state before it.
  \<open>time.Now()\<close> is an input: every call takes the instant \<open>now\<close> at which it
  runs, in nanoseconds since the Unix epoch, as an unbounded integer. One instant
  stands for all the readings of the clock inside one call. Where the source turns an
  instant into an int64 count of nanoseconds (\<open>UnixNano\<close>) the model wraps it to 64
  bits as Go does. Counts of whole seconds (\<open>Unix\<close>, \<open>createTime\<close>) are not wrapped:
  their int64 difference in \<open>Set\<close> is exact for any two instants less than
  \<open>2^63\<close> seconds apart.
\<close>

subsection \<open>The key scheme\<close>

text \<open>
  Both \<open>key\<close> methods call \<open>fmt.Sprintf("phone_code:%s:%s", biz, phone)\<close>.
  \<open>Sprintf\<close> models the part of the standard library's formatter that these calls
  use: literal text is copied, the verb \<open>%s\<close> takes the next string operand as it is,
  and a \<open>%s\<close> that finds no operand left prints \<open>%!s(MISSING)\<close>. (Go also reports
  surplus operands; no call here has any.)
\<close>

fun Sprintf :: "string \<Rightarrow> string list \<Rightarrow> string" where
  "Sprintf [] args = []"
| "Sprintf [c] args = [c]"
| "Sprintf (c # d # fmt) args =
     (if c = CHR ''%'' \<and> d = CHR ''s''
      then (case args of
              [] \<Rightarrow> ''%!s(MISSING)'' @ Sprintf fmt []
            | a # rest \<Rightarrow> a @ Sprintf fmt rest)
      else c # Sprintf (d # fmt) args)"

definition RedisCodeCache_key :: "string \<Rightarrow> string \<Rightarrow> string" where
  "RedisCodeCache_key biz phone = Sprintf ''phone_code:%s:%s'' [biz, phone]"

definition LocalCodeCache_key :: "string \<Rightarrow> string \<Rightarrow> string" where
  "LocalCodeCache_key biz phone = Sprintf ''phone_code:%s:%s'' [biz, phone]"

subsection \<open>Errors\<close>

text \<open>
  The three package-level error values, and \<open>ErrClient\<close> for whatever error the
  Redis client itself returns from \<open>Eval(...).Int()\<close> (the store is unreachable, the
  reply is not an integer). A Go \<open>error\<close> result is an \<open>error option\<close>: \<open>None\<close>
  is \<open>nil\<close>.
\<close>

datatype error =
    ErrCodeSendTooMany
  | ErrCodeVerifyTooManyTimes
  | ErrUnknownForCode
  | ErrClient

subsection \<open>Time\<close>

definition Second :: int where
  "Second = 1000000000"

definition Minute :: int where
  "Minute = 60 * Second"

text \<open>\<open>time.Time.Unix\<close>: whole seconds since the epoch, rounded down.\<close>

definition Unix :: "int \<Rightarrow> int" where
  "Unix now = now div Second"

text \<open>
  \<open>time.Time.UnixNano\<close>: the nanoseconds since the epoch as an int64. Go computes
  them in 64-bit arithmetic, so an instant outside the int64 range wraps around.
\<close>

definition UnixNano :: "int \<Rightarrow> int" where
  "UnixNano t = (t + 2 ^ 63) mod 2 ^ 64 - 2 ^ 63"

subsection \<open>The in-process store (github.com/patrickmn/go-cache)\<close>

text \<open>
  go-cache is a third-party library. Its cache is a map from keys to items; an item
  is the stored object and the int64 nanosecond count after which it counts as
  expired, a count of 0 or less meaning never. The objects are \<open>interface{}\<close> values: \<open>CodeValue\<close> is
  a \<open>*localCodeCacheValue\<close>, \<open>Foreign\<close> any object of another type, on which the
  type assertions of \<open>Set\<close> and \<open>Verify\<close> fail.

  The record that \<open>Verify\<close> mutates through its pointer is reachable from the one
  key it was read from (\<open>getValue\<close> allocates a fresh one for each \<open>Set\<close>), so
  records are stored by value. The field \<open>times\<close> of the source is \<open>times_v\<close>
  here. It is an int64 in the source; its only arithmetic is a decrement of a
  positive number, which cannot wrap.
\<close>

record localCodeCacheValue =
  code :: string
  times_v :: int
  createTime :: int

datatype stored = CodeValue localCodeCacheValue | Foreign

record Item =
  Object :: stored
  Expiration :: int

type_synonym go_cache = "string \<rightharpoonup> Item"

definition DefaultExpiration :: int where
  "DefaultExpiration = 0"

definition NoExpiration :: int where
  "NoExpiration = - 1"

text \<open>
  The test that \<open>Get\<close> and \<open>DeleteExpired\<close> both make on an item:
  \<open>Expiration > 0\<close> and \<open>time.Now().UnixNano() > Expiration\<close>.
\<close>

definition Expired :: "Item \<Rightarrow> int \<Rightarrow> bool" where
  "Expired it now = (Expiration it > 0 \<and> UnixNano now > Expiration it)"

text \<open>
  \<open>cache.Set(k, x, d)\<close>. The default expiration it falls back on is the one
  \<open>NewCodeCache\<close> configures, \<open>cache.NoExpiration\<close>. The expiry it stores is
  \<open>time.Now().Add(d).UnixNano()\<close>, an int64: for an instant within \<open>d\<close> of the
  end of the int64 range it is negative, and the item then never expires.
\<close>

definition cache_Set :: "go_cache \<Rightarrow> int \<Rightarrow> string \<Rightarrow> stored \<Rightarrow> int \<Rightarrow> go_cache" where
  "cache_Set c now k x d =
     (let d' = (if d = DefaultExpiration then NoExpiration else d);
          e = (if d' > 0 then UnixNano (now + d') else 0)
      in c(k \<mapsto> \<lparr>Object = x, Expiration = e\<rparr>))"

definition cache_Get :: "go_cache \<Rightarrow> int \<Rightarrow> string \<Rightarrow> stored option" where
  "cache_Get c now k =
     (case c k of
        None \<Rightarrow> None
      | Some it \<Rightarrow> if Expired it now then None else Some (Object it))"

text \<open>
  \<open>DeleteExpired\<close>, which the janitor that \<open>cache.New(_, time.Minute*10)\<close> starts
  runs every ten minutes.
\<close>

definition cache_DeleteExpired :: "go_cache \<Rightarrow> int \<Rightarrow> go_cache" where
  "cache_DeleteExpired c now =
     (\<lambda>k. case c k of
            None \<Rightarrow> None
          | Some it \<Rightarrow> if Expired it now then None else Some it)"

subsection \<open>LocalCodeCache\<close>

text \<open>
  The struct holds the go-cache instance and the mutex. The mutex carries no data, so
  the state of a \<open>LocalCodeCache\<close> is the state of its cache.
\<close>

type_synonym LocalCodeCache = go_cache

definition NewCodeCache :: LocalCodeCache where
  "NewCodeCache = Map.empty"

definition getValue :: "int \<Rightarrow> string \<Rightarrow> localCodeCacheValue" where
  "getValue now code_in = \<lparr>code = code_in, times_v = 3, createTime = Unix now\<rparr>"

definition LocalCodeCache_Set ::
  "LocalCodeCache \<Rightarrow> int \<Rightarrow> string \<Rightarrow> string \<Rightarrow> string \<Rightarrow> error option \<times> LocalCodeCache" where
  "LocalCodeCache_Set c now biz phone code_in =
     (let k = LocalCodeCache_key biz phone;
          issue = (None, cache_Set c now k (CodeValue (getValue now code_in)) (Minute * 5))
      in case cache_Get c now k of
           Some Foreign \<Rightarrow> (Some ErrUnknownForCode, c)
         | Some (CodeValue v) \<Rightarrow>
             if Unix now - createTime v < 60 then (Some ErrCodeSendTooMany, c) else issue
         | None \<Rightarrow> issue)"

definition LocalCodeCache_Verify ::
  "LocalCodeCache \<Rightarrow> int \<Rightarrow> string \<Rightarrow> string \<Rightarrow> string
     \<Rightarrow> (bool \<times> error option) \<times> LocalCodeCache" where
  "LocalCodeCache_Verify c now biz phone inputCode =
     (let k = LocalCodeCache_key biz phone
      in case cache_Get c now k of
           None \<Rightarrow> ((False, Some ErrUnknownForCode), c)
         | Some Foreign \<Rightarrow> ((False, Some ErrUnknownForCode), c)
         | Some (CodeValue v) \<Rightarrow>
             if times_v v \<le> 0 then ((False, Some ErrCodeVerifyTooManyTimes), c)
             else if code v \<noteq> inputCode
             then ((False, Some ErrUnknownForCode),
                   cache_Set c now k (CodeValue (v\<lparr>times_v := times_v v - 1\<rparr>)) (Minute * 5))
             else ((True, None),
                   cache_Set c now k (CodeValue (v\<lparr>times_v := - 1\<rparr>)) Second))"

subsection \<open>RedisCodeCache\<close>

text \<open>
  \<open>RedisCodeCache.Verify\<close> evaluates the script \<open>luaVerifyCode\<close> on the key and maps
  what \<open>Eval(...).Int()\<close> returns: \<open>Inl err\<close> is a client error (\<open>err != nil\<close>),
  \<open>Inr res\<close> the integer the script replied.
\<close>

definition RedisCodeCache_Verify_reply :: "error + int \<Rightarrow> bool \<times> error option" where
  "RedisCodeCache_Verify_reply r =
     (case r of
        Inl err \<Rightarrow> (False, Some err)
      | Inr res \<Rightarrow>
          if res = 0 then (True, None)
          else if res = - 1 then (False, Some ErrCodeVerifyTooManyTimes)
          else if res = - 2 then (False, None)
          else (False, Some ErrUnknownForCode))"

text \<open>
  Modelled from the spec: the script \<open>lua/verify_code.lua\<close>, which the Go file embeds
  as \<open>luaVerifyCode\<close> and which is not among the sources, and the remote store it runs
  on. The spec (section 4.3, "Verify procedure") has the script read the attempts of
  the key and reply \<open>-1\<close> without mutation when they are \<open>\<le> 0\<close>; treat an absent code
  as not found; on a candidate equal to the stored code set the attempts to a disabled
  sentinel and reply \<open>0\<close>; otherwise decrement the attempts by 1 and reply \<open>-2\<close>. A
  record of the remote store holds the code, the remaining attempts and the instant
  at which the store's own time-to-live removes the key; a key the store does not
  hold has neither attempts nor code, so the first step does not apply to it and the
  second finds it missing. The spec fixes neither the number replied for a missing
  record (only that the caller maps it to \<open>UnknownError\<close>) nor the sentinel, so both
  are parameters.
\<close>

record VerificationRecord =
  activeCode :: string
  remainingAttempts :: int
  expiresAt :: int

type_synonym remote_store = "string \<rightharpoonup> VerificationRecord"

definition remote_lookup :: "remote_store \<Rightarrow> int \<Rightarrow> string \<Rightarrow> VerificationRecord option" where
  "remote_lookup st now k =
     (case st k of
        None \<Rightarrow> None
      | Some r \<Rightarrow> if expiresAt r \<le> now then None else Some r)"

definition verify_procedure ::
  "int \<Rightarrow> int \<Rightarrow> remote_store \<Rightarrow> int \<Rightarrow> string \<Rightarrow> string \<Rightarrow> int \<times> remote_store" where
  "verify_procedure notFound sentinel st now k candidate =
     (case remote_lookup st now k of
        None \<Rightarrow> (notFound, st)
      | Some r \<Rightarrow>
          if remainingAttempts r \<le> 0 then (- 1, st)
          else if candidate = activeCode r
          then (0, st(k \<mapsto> r\<lparr>remainingAttempts := sentinel\<rparr>))
          else (- 2, st(k \<mapsto> r\<lparr>remainingAttempts := remainingAttempts r - 1\<rparr>)))"

text \<open>
  \<open>RedisCodeCache.Verify\<close> on a store that runs the script and delivers its reply
  (\<open>err == nil\<close>).
\<close>

definition RedisCodeCache_Verify ::
  "int \<Rightarrow> int \<Rightarrow> remote_store \<Rightarrow> int \<Rightarrow> string \<Rightarrow> string \<Rightarrow> string
     \<Rightarrow> (bool \<times> error option) \<times> remote_store" where
  "RedisCodeCache_Verify notFound sentinel st now biz phone inputCode =
     (case verify_procedure notFound sentinel st now (RedisCodeCache_key biz phone) inputCode of
        (res, st') \<Rightarrow> (RedisCodeCache_Verify_reply (Inr res), st'))"

subsection \<open>Sequences of calls on a LocalCodeCache\<close>

text \<open>
  A caller's history is a list of calls, each with the clock reading at which it runs.
  \<open>Janitor\<close> is one sweep of go-cache's janitor, taken between two calls. \<open>replay\<close>
  pairs every call with what it returned; \<open>after\<close> is the state the history leaves.
\<close>

datatype call =
    CallSet string string string
  | CallVerify string string string
  | Janitor

datatype outcome =
    SetReturned "error option"
  | VerifyReturned bool "error option"
  | Swept

fun step :: "LocalCodeCache \<Rightarrow> int \<Rightarrow> call \<Rightarrow> outcome \<times> LocalCodeCache" where
  "step c now (CallSet biz phone code_in) =
     (case LocalCodeCache_Set c now biz phone code_in of (err, c') \<Rightarrow> (SetReturned err, c'))"
| "step c now (CallVerify biz phone inputCode) =
     (case LocalCodeCache_Verify c now biz phone inputCode of
        ((ok, err), c') \<Rightarrow> (VerifyReturned ok err, c'))"
| "step c now Janitor = (Swept, cache_DeleteExpired c now)"

fun replay :: "LocalCodeCache \<Rightarrow> (int \<times> call) list \<Rightarrow> (call \<times> outcome) list" where
  "replay c [] = []"
| "replay c ((now, cl) # rest) =
     (cl, fst (step c now cl)) # replay (snd (step c now cl)) rest"

fun after :: "LocalCodeCache \<Rightarrow> (int \<times> call) list \<Rightarrow> LocalCodeCache" where
  "after c [] = c"
| "after c ((now, cl) # rest) = after (snd (step c now cl)) rest"

text \<open>Whether a call is a \<open>Set\<close>, or a \<open>Verify\<close>, that addresses the cache key \<open>k\<close>.\<close>

fun is_Set_on :: "string \<Rightarrow> call \<Rightarrow> bool" where
  "is_Set_on k (CallSet biz phone code_in) = (LocalCodeCache_key biz phone = k)"
| "is_Set_on k (CallVerify biz phone inputCode) = False"
| "is_Set_on k Janitor = False"

fun is_Verify_on :: "string \<Rightarrow> call \<Rightarrow> bool" where
  "is_Verify_on k (CallVerify biz phone inputCode) = (LocalCodeCache_key biz phone = k)"
| "is_Verify_on k (CallSet biz phone code_in) = False"
| "is_Verify_on k Janitor = False"

text \<open>
  A replayed call issued a code under \<open>k\<close>: it was a \<open>Set\<close> on \<open>k\<close> that returned
  \<open>nil\<close>. A \<open>Set\<close> that returned an error issued nothing.
\<close>

fun issued_on :: "string \<Rightarrow> call \<times> outcome \<Rightarrow> bool" where
  "issued_on k (cl, out) = (is_Set_on k cl \<and> out = SetReturned None)"

text \<open>
  A \<open>Verify\<close> was refused: verdict false, with \<open>ErrUnknownForCode\<close> or
  \<open>ErrCodeVerifyTooManyTimes\<close>.
\<close>

definition refused :: "outcome \<Rightarrow> bool" where
  "refused out =
     (out = VerifyReturned False (Some ErrUnknownForCode)
      \<or> out = VerifyReturned False (Some ErrCodeVerifyTooManyTimes))"

text \<open>
  In a replayed history, every \<open>Verify\<close> on \<open>k\<close> that comes before the first \<open>Set\<close>
  that issued a code under \<open>k\<close> was refused. Nothing is asked of the calls from that
  \<open>Set\<close> on.
\<close>

fun refused_until_issue :: "string \<Rightarrow> (call \<times> outcome) list \<Rightarrow> bool" where
  "refused_until_issue k [] = True"
| "refused_until_issue k ((cl, out) # rest) =
     (if issued_on k (cl, out) then True
      else if is_Verify_on k cl then refused out \<and> refused_until_issue k rest
      else refused_until_issue k rest)"

text \<open>
  The attempts counter stored under a key, whether or not the item has expired:
  \<open>None\<close> when the map holds no code record there.
\<close>

definition attempts :: "LocalCodeCache \<Rightarrow> string \<Rightarrow> int option" where
  "attempts c k =
     (case c k of
        None \<Rightarrow> None
      | Some it \<Rightarrow> (case Object it of CodeValue v \<Rightarrow> Some (times_v v) | Foreign \<Rightarrow> None))"

text \<open>
  One transition of the counter under \<open>k\<close>, from \<open>was\<close> to \<open>becomes\<close>, is allowed
  when the counter did not go up and no counter appeared, or when the call was a
  \<open>Set\<close> on \<open>k\<close> and the counter has become exactly 3.
\<close>

definition counter_step_ok :: "string \<Rightarrow> call \<Rightarrow> int option \<Rightarrow> int option \<Rightarrow> bool" where
  "counter_step_ok k cl was becomes =
     (case becomes of
        None \<Rightarrow> True
      | Some n' \<Rightarrow>
          (is_Set_on k cl \<and> n' = 3)
          \<or> (case was of None \<Rightarrow> False | Some n \<Rightarrow> n' \<le> n))"


text \<open>
  A key is spent when the counter stored under it, if there is one, is \<open>\<le> 0\<close>.
\<close>

definition spent :: "LocalCodeCache \<Rightarrow> string \<Rightarrow> bool" where
  "spent c k = (case attempts c k of None \<Rightarrow> True | Some n \<Rightarrow> n \<le> 0)"

subsection \<open>A concrete history\<close>

text \<open>
  The scenario of the spec's section 8: a fresh cache, then
  \<open>Set("login", "13800000000", "123456")\<close> at clock reading 0.
\<close>

definition scn_issued :: LocalCodeCache where
  "scn_issued = snd (LocalCodeCache_Set NewCodeCache 0 ''login'' ''13800000000'' ''123456'')"

text \<open>The same, followed by a \<open>Verify\<close> with the right code 100 seconds later.\<close>

definition scn_consumed :: LocalCodeCache where
  "scn_consumed =
     snd (LocalCodeCache_Verify scn_issued (100 * Second) ''login'' ''13800000000'' ''123456'')"

text \<open>The same issued code, verified with the right code after 10 seconds instead.\<close>

definition scn_consumed_early :: LocalCodeCache where
  "scn_consumed_early =
     snd (LocalCodeCache_Verify scn_issued (10 * Second) ''login'' ''13800000000'' ''123456'')"

text \<open>A \<open>Verify\<close> with the wrong code \<open>"000000"\<close> at clock reading \<open>t\<close>.\<close>

definition wrong_at :: "int \<Rightarrow> int \<times> call" where
  "wrong_at t = (t, CallVerify ''login'' ''13800000000'' ''000000'')"

text \<open>
  Calls that follow the successful \<open>Verify\<close> of \<open>scn_consumed_early\<close>: a \<open>Set\<close> for
  the same key inside the cooldown, the same code again and a wrong code within the
  last second of the record, a \<open>Set\<close> for another phone, a janitor sweep, the same
  code once more, then a \<open>Set\<close> for the same key after the cooldown and a \<open>Verify\<close>
  with the code it issued.
\<close>

definition scn_later_calls :: "(int \<times> call) list" where
  "scn_later_calls =
     [(10 * Second + 300000000, CallSet ''login'' ''13800000000'' ''654321''),
      (10 * Second + 500000000, CallVerify ''login'' ''13800000000'' ''123456''),
      (10 * Second + 600000000, CallVerify ''login'' ''13800000000'' ''000000''),
      (10 * Second + 700000000, CallSet ''login'' ''13900000000'' ''111111''),
      (20 * Second, Janitor),
      (21 * Second, CallVerify ''login'' ''13800000000'' ''123456''),
      (70 * Second, CallSet ''login'' ''13800000000'' ''654321''),
      (71 * Second, CallVerify ''login'' ''13800000000'' ''654321'')]"


text \<open>A remote store holding one record whose attempts are used up.\<close>

definition scn_remote :: remote_store where
  "scn_remote =
     [RedisCodeCache_key ''login'' ''13800000000'' \<mapsto>
        \<lparr>activeCode = ''123456'', remainingAttempts = 0, expiresAt = 300 * Second\<rparr>]"

section \<open>Properties\<close>

subsection \<open>Evaluation lemmas\<close>

lemma Sprintf_key_format:
  "Sprintf ''phone_code:%s:%s'' [biz, phone] = ''phone_code:'' @ biz @ '':'' @ phone"
  by simp

lemma key_concat: "LocalCodeCache_key biz phone = ''phone_code:'' @ biz @ '':'' @ phone"
  by (simp add: LocalCodeCache_key_def)

lemmas time_defs = Second_def Minute_def Unix_def

lemmas store_defs =
  cache_Get_def cache_Set_def Expired_def DefaultExpiration_def NoExpiration_def

lemma cache_Set_minutes:
  "cache_Set c now k x (Minute * 5)
     = c(k \<mapsto> \<lparr>Object = x, Expiration = UnixNano (now + 5 * Minute)\<rparr>)"
  by (simp add: cache_Set_def DefaultExpiration_def NoExpiration_def time_defs)

lemma cache_Set_second:
  "cache_Set c now k x Second = c(k \<mapsto> \<lparr>Object = x, Expiration = UnixNano (now + Second)\<rparr>)"
  by (simp add: cache_Set_def DefaultExpiration_def NoExpiration_def time_defs)


lemma int_mod_shift:
  fixes r d m :: int
  assumes "0 \<le> r" "r < m" "0 \<le> d" "d < m"
  shows "(r + d) mod m = (if r + d < m then r + d else r + d - m)"
proof (cases "r + d < m")
  case True
  with assms show ?thesis by simp
next
  case False
  from False assms have "0 \<le> r + d - m" and "r + d - m < m" by simp_all
  then have "(r + d - m) mod m = r + d - m" by (rule mod_pos_pos_trivial)
  moreover have "(r + d - m) mod m = (r + d) mod m" by (rule minus_mod_self2)
  ultimately show ?thesis using False by simp
qed

text \<open>
  An expiry set at most \<open>2^63\<close> nanoseconds ahead of an instant has not passed at that
  instant, wherever the two lie: when the wrap falls between them the expiry is
  negative, which go-cache reads as no expiry.
\<close>

lemma UnixNano_window:
  assumes "now \<le> e" and "e \<le> now + 2 ^ 63"
  shows "\<not> (0 < UnixNano e \<and> UnixNano e < UnixNano now)"
proof -
  define r :: int where "r = (now + 2 ^ 63) mod 2 ^ 64"
  define d where "d = e - now"
  have r: "0 \<le> r" "r < 2 ^ 64" by (simp_all add: r_def)
  from assms have d: "0 \<le> d" "d \<le> 2 ^ 63" by (simp_all add: d_def)
  have "e + 2 ^ 63 = now + 2 ^ 63 + d" by (simp add: d_def)
  then have "(e + 2 ^ 63) mod 2 ^ 64 = (now + 2 ^ 63 + d) mod 2 ^ 64"
    by (rule arg_cong)
  also have "\<dots> = (r + d) mod 2 ^ 64"
    unfolding r_def by (simp add: mod_add_left_eq)
  also from r d have "\<dots> = (if r + d < 2 ^ 64 then r + d else r + d - 2 ^ 64)"
    by (intro int_mod_shift) simp_all
  finally have e: "UnixNano e = (if r + d < 2 ^ 64 then r + d else r + d - 2 ^ 64) - 2 ^ 63"
    by (simp add: UnixNano_def)
  have n: "UnixNano now = r - 2 ^ 63" by (simp add: UnixNano_def r_def)
  from r d show ?thesis unfolding e n by (simp split: if_splits)
qed

lemma cache_Get_Some:
  "cache_Get c now k = Some x
     \<longleftrightarrow> (\<exists>it. c k = Some it \<and> \<not> Expired it now \<and> Object it = x)"
  by (auto simp: cache_Get_def split: option.splits)

lemma cache_Get_None:
  "cache_Get c now k = None \<longleftrightarrow> (c k = None \<or> (\<exists>it. c k = Some it \<and> Expired it now))"
  by (auto simp: cache_Get_def split: option.splits)

lemma step_Set:
  "step c now (CallSet biz phone x)
     = (SetReturned (fst (LocalCodeCache_Set c now biz phone x)),
        snd (LocalCodeCache_Set c now biz phone x))"
  by (simp split: prod.splits)

lemma step_Verify:
  "step c now (CallVerify biz phone x)
     = (VerifyReturned (fst (fst (LocalCodeCache_Verify c now biz phone x)))
          (snd (fst (LocalCodeCache_Verify c now biz phone x))),
        snd (LocalCodeCache_Verify c now biz phone x))"
  by (simp split: prod.splits)

lemmas local_defs = LocalCodeCache_Set_def LocalCodeCache_Verify_def key_concat
  store_defs time_defs UnixNano_def getValue_def NewCodeCache_def

lemma scn_issued_eq:
  "scn_issued = [''phone_code:login:13800000000'' \<mapsto>
     \<lparr>Object = CodeValue \<lparr>code = ''123456'', times_v = 3, createTime = 0\<rparr>,
      Expiration = 300000000000\<rparr>]"
  by (simp add: scn_issued_def local_defs)

lemma scn_consumed_eq:
  "scn_consumed = [''phone_code:login:13800000000'' \<mapsto>
     \<lparr>Object = CodeValue \<lparr>code = ''123456'', times_v = - 1, createTime = 0\<rparr>,
      Expiration = 101000000000\<rparr>]"
  by (simp add: scn_consumed_def scn_issued_eq local_defs)

lemma scn_consumed_early_eq:
  "scn_consumed_early = [''phone_code:login:13800000000'' \<mapsto>
     \<lparr>Object = CodeValue \<lparr>code = ''123456'', times_v = - 1, createTime = 0\<rparr>,
      Expiration = 11000000000\<rparr>]"
  by (simp add: scn_consumed_early_def scn_issued_eq local_defs)


lemma Verify_local_mismatch:
  assumes "cache_Get c now (LocalCodeCache_key biz phone) = Some (CodeValue v)"
    and "0 < times_v v" and "code v \<noteq> inputCode"
  shows "LocalCodeCache_Verify c now biz phone inputCode
         = ((False, Some ErrUnknownForCode),
            c(LocalCodeCache_key biz phone \<mapsto>
                \<lparr>Object = CodeValue (v\<lparr>times_v := times_v v - 1\<rparr>),
                 Expiration = UnixNano (now + 5 * Minute)\<rparr>))"
  using assms by (simp add: LocalCodeCache_Verify_def cache_Set_minutes)

lemma Verify_local_match:
  assumes "cache_Get c now (LocalCodeCache_key biz phone) = Some (CodeValue v)"
    and "LocalCodeCache_Verify c now biz phone inputCode = ((True, None), c')"
  shows "0 < times_v v \<and> code v = inputCode
         \<and> c' = c(LocalCodeCache_key biz phone \<mapsto>
                \<lparr>Object = CodeValue (v\<lparr>times_v := - 1\<rparr>),
                 Expiration = UnixNano (now + Second)\<rparr>)"
  using assms
  by (auto simp: LocalCodeCache_Verify_def cache_Set_second Let_def split: if_splits)


lemma Set_error_unchanged:
  assumes "fst (LocalCodeCache_Set c now biz phone code_in) \<noteq> None"
  shows "snd (LocalCodeCache_Set c now biz phone code_in) = c"
  using assms
  by (auto simp: LocalCodeCache_Set_def Let_def split: option.splits stored.splits if_splits)

lemma Verify_shared_mismatch:
  assumes "remote_lookup st now (RedisCodeCache_key biz phone) = Some r"
    and "0 < remainingAttempts r" and "activeCode r \<noteq> inputCode"
  shows "RedisCodeCache_Verify notFound sentinel st now biz phone inputCode
         = ((False, None),
            st(RedisCodeCache_key biz phone \<mapsto> r\<lparr>remainingAttempts := remainingAttempts r - 1\<rparr>))"
  using assms
  by (auto simp: RedisCodeCache_Verify_def verify_procedure_def RedisCodeCache_Verify_reply_def)

subsection \<open>The key scheme\<close>

text \<open>
  C8: the key functions of the two backends are the same function: for every
  business and phone, each returns \<open>"phone_code:" + business + ":" + phone\<close>. Both are
  pure functions of their two arguments.
\<close>

theorem key_scheme_shared:
  "RedisCodeCache_key biz phone = LocalCodeCache_key biz phone
   \<and> LocalCodeCache_key biz phone = ''phone_code:'' @ biz @ '':'' @ phone
   \<and> RedisCodeCache_key biz phone = ''phone_code:'' @ biz @ '':'' @ phone"
  unfolding RedisCodeCache_key_def LocalCodeCache_key_def Sprintf_key_format by simp

subsection \<open>Issuing a code\<close>




text \<open>
  At the last instant of the int64 range the expiry that \<open>Set\<close> stores has wrapped
  to a negative number, and the record is still found a year later.
\<close>

lemma Set_at_int64_limit:
  "LocalCodeCache_Set NewCodeCache (2 ^ 63 - 1) ''login'' ''13800000000'' ''123456''
     = (None,
        [''phone_code:login:13800000000'' \<mapsto>
           \<lparr>Object = CodeValue \<lparr>code = ''123456'', times_v = 3, createTime = 9223372036\<rparr>,
            Expiration = - 9223371736854775809\<rparr>])"
  "cache_Get
     [''phone_code:login:13800000000'' \<mapsto>
        \<lparr>Object = CodeValue \<lparr>code = ''123456'', times_v = 3, createTime = 9223372036\<rparr>,
         Expiration = - 9223371736854775809\<rparr>]
     (2 ^ 63 - 1 + 365 * 24 * 60 * Minute) ''phone_code:login:13800000000''
     = Some (CodeValue \<lparr>code = ''123456'', times_v = 3, createTime = 9223372036\<rparr>)"
  by (simp_all add: local_defs)

subsection \<open>Verifying without a usable record\<close>

text \<open>
  C7: when the cache holds no record under the key of a (business, phone) pair, either
  because the map has no entry there (never set, or swept) or because the entry there
  has expired (a record left to run out, or a consumed one past its last second),
  \<open>Verify\<close> returns verdict false with \<open>ErrUnknownForCode\<close> for every input code and
  changes nothing. The result is the same in all these situations, so the caller cannot
  tell them apart.
\<close>

theorem Verify_without_record:
  assumes "c (LocalCodeCache_key biz phone) = None
           \<or> (\<exists>it. c (LocalCodeCache_key biz phone) = Some it \<and> Expired it now)"
  shows "LocalCodeCache_Verify c now biz phone inputCode = ((False, Some ErrUnknownForCode), c)"
proof -
  from assms have "cache_Get c now (LocalCodeCache_key biz phone) = None"
    by (simp add: cache_Get_None)
  then show ?thesis
    by (simp add: LocalCodeCache_Verify_def)
qed

theorem Verify_without_record_witness:
  "NewCodeCache (LocalCodeCache_key ''login'' ''13800000000'') = None
   \<and> LocalCodeCache_Verify NewCodeCache 0 ''login'' ''13800000000'' ''123456''
     = ((False, Some ErrUnknownForCode), NewCodeCache)
   \<and> Expired \<lparr>Object = CodeValue \<lparr>code = ''123456'', times_v = - 1, createTime = 0\<rparr>,
               Expiration = 101000000000\<rparr> (102 * Second)
   \<and> LocalCodeCache_Verify scn_consumed (102 * Second) ''login'' ''13800000000'' ''123456''
     = ((False, Some ErrUnknownForCode), scn_consumed)"
proof -
  have a: "NewCodeCache (LocalCodeCache_key ''login'' ''13800000000'') = None"
    by (simp add: NewCodeCache_def)
  have b: "\<exists>it. scn_consumed (LocalCodeCache_key ''login'' ''13800000000'') = Some it
             \<and> Expired it (102 * Second)"
    by (simp add: scn_consumed_eq key_concat Expired_def time_defs UnixNano_def)
  from a b
    Verify_without_record [of NewCodeCache "''login''" "''13800000000''" 0 "''123456''"]
    Verify_without_record [of scn_consumed "''login''" "''13800000000''" "102 * Second" "''123456''"]
  show ?thesis
    by (simp add: Expired_def time_defs UnixNano_def)
qed

text \<open>
  C6: when the record found under the key has \<open>remainingAttempts \<le> 0\<close>, \<open>Verify\<close>
  returns verdict false with \<open>ErrCodeVerifyTooManyTimes\<close> and the store after the call
  is the store before it: no field of the record and no expiry has changed. This holds
  for the local backend, and for the shared backend run on the script as the spec
  describes it.
\<close>

theorem Verify_exhausted_untouched:
  "(cache_Get c now (LocalCodeCache_key biz phone) = Some (CodeValue v) \<and> times_v v \<le> 0
      \<longrightarrow> LocalCodeCache_Verify c now biz phone inputCode
            = ((False, Some ErrCodeVerifyTooManyTimes), c))
   \<and> (remote_lookup st now (RedisCodeCache_key biz phone) = Some r \<and> remainingAttempts r \<le> 0
      \<longrightarrow> RedisCodeCache_Verify notFound sentinel st now biz phone inputCode
            = ((False, Some ErrCodeVerifyTooManyTimes), st))"
  by (simp add: LocalCodeCache_Verify_def RedisCodeCache_Verify_def verify_procedure_def
      RedisCodeCache_Verify_reply_def)

theorem Verify_exhausted_untouched_witness:
  "cache_Get scn_consumed (100 * Second + 500000000) (LocalCodeCache_key ''login'' ''13800000000'')
     = Some (CodeValue \<lparr>code = ''123456'', times_v = - 1, createTime = 0\<rparr>)
   \<and> LocalCodeCache_Verify scn_consumed (100 * Second + 500000000)
        ''login'' ''13800000000'' ''123456''
     = ((False, Some ErrCodeVerifyTooManyTimes), scn_consumed)
   \<and> remote_lookup scn_remote (100 * Second + 500000000) (RedisCodeCache_key ''login'' ''13800000000'')
     = Some \<lparr>activeCode = ''123456'', remainingAttempts = 0, expiresAt = 300 * Second\<rparr>
   \<and> RedisCodeCache_Verify (- 3) (- 1) scn_remote (100 * Second + 500000000)
        ''login'' ''13800000000'' ''123456''
     = ((False, Some ErrCodeVerifyTooManyTimes), scn_remote)"
proof -
  let ?v = "\<lparr>code = ''123456'', times_v = - 1, createTime = 0\<rparr>"
  let ?r = "\<lparr>activeCode = ''123456'', remainingAttempts = 0, expiresAt = 300 * Second\<rparr>"
  have g: "cache_Get scn_consumed (100 * Second + 500000000)
             (LocalCodeCache_key ''login'' ''13800000000'') = Some (CodeValue ?v)"
    by (simp add: scn_consumed_eq key_concat store_defs time_defs UnixNano_def)
  have l: "remote_lookup scn_remote (100 * Second + 500000000) (RedisCodeCache_key ''login'' ''13800000000'')
             = Some ?r"
    by (simp add: scn_remote_def remote_lookup_def time_defs)
  from g l
    Verify_exhausted_untouched [of scn_consumed "100 * Second + 500000000" "''login''"
      "''13800000000''" ?v "''123456''" scn_remote ?r "- 3" "- 1"]
  show ?thesis by simp
qed

subsection \<open>The attempts counter\<close>

lemma attempts_found:
  "cache_Get c now k = Some (CodeValue v) \<Longrightarrow> attempts c k = Some (times_v v)"
  by (auto simp: cache_Get_Some attempts_def)

lemma attempts_upd:
  "attempts (c(k' \<mapsto> \<lparr>Object = CodeValue v, Expiration = e\<rparr>)) k
     = (if k = k' then Some (times_v v) else attempts c k)"
  by (simp add: attempts_def)

lemma counter_step_same: "counter_step_ok k cl a a"
  by (simp add: counter_step_ok_def split: option.splits)

lemma counter_step_ok_rejects:
  "\<not> counter_step_ok k Janitor (Some 1) (Some 2)"
  "\<not> counter_step_ok k (CallVerify biz phone x) None (Some 3)"
  by (simp_all add: counter_step_ok_def)

lemma counter_step_Set:
  "counter_step_ok k (CallSet biz phone x) (attempts c k)
     (attempts (snd (LocalCodeCache_Set c now biz phone x)) k)"
proof (cases "snd (LocalCodeCache_Set c now biz phone x) = c")
  case True
  then show ?thesis by (simp add: counter_step_same)
next
  case False
  then have "snd (LocalCodeCache_Set c now biz phone x)
      = c(LocalCodeCache_key biz phone \<mapsto>
            \<lparr>Object = CodeValue (getValue now x), Expiration = UnixNano (now + 5 * Minute)\<rparr>)"
    by (auto simp: LocalCodeCache_Set_def cache_Set_minutes Let_def
        split: option.splits stored.splits if_splits)
  then show ?thesis
    by (simp add: attempts_upd getValue_def counter_step_ok_def split: option.splits)
qed

lemma counter_step_Verify:
  "counter_step_ok k (CallVerify biz phone x) (attempts c k)
     (attempts (snd (LocalCodeCache_Verify c now biz phone x)) k)"
proof (cases "cache_Get c now (LocalCodeCache_key biz phone)")
  case None
  then show ?thesis by (simp add: LocalCodeCache_Verify_def counter_step_same)
next
  case (Some obj)
  show ?thesis
  proof (cases obj)
    case Foreign
    with Some show ?thesis by (simp add: LocalCodeCache_Verify_def counter_step_same)
  next
    case (CodeValue v)
    with Some have found: "cache_Get c now (LocalCodeCache_key biz phone) = Some (CodeValue v)"
      by simp
    then have att: "attempts c (LocalCodeCache_key biz phone) = Some (times_v v)"
      by (rule attempts_found)
    show ?thesis
    proof (cases "times_v v \<le> 0")
      case True
      with found show ?thesis by (simp add: LocalCodeCache_Verify_def counter_step_same)
    next
      case False
      with found att show ?thesis
        by (simp add: LocalCodeCache_Verify_def cache_Set_minutes cache_Set_second
            attempts_upd counter_step_ok_def Let_def split: option.splits)
    qed
  qed
qed

lemma counter_step_Janitor:
  "counter_step_ok k Janitor (attempts c k) (attempts (cache_DeleteExpired c now) k)"
  by (simp add: counter_step_ok_def attempts_def cache_DeleteExpired_def
      split: option.splits stored.splits)

lemma counter_step:
  "counter_step_ok k cl (attempts c k) (attempts (snd (step c now cl)) k)"
proof (cases cl)
  case (CallSet biz phone x)
  then show ?thesis
    by (simp only: step_Set snd_conv counter_step_Set)
next
  case (CallVerify biz phone x)
  then show ?thesis
    by (simp only: step_Verify snd_conv counter_step_Verify)
next
  case Janitor
  then show ?thesis by (simp add: counter_step_Janitor)
qed


lemma spent_step:
  assumes "spent c k" and "\<not> issued_on k (cl, fst (step c now cl))"
  shows "spent (snd (step c now cl)) k"
proof (cases "is_Set_on k cl")
  case False
  with assms(1) counter_step [of k cl c now] show ?thesis
    by (auto simp: spent_def counter_step_ok_def split: option.splits)
next
  case True
  then obtain biz phone x where cl: "cl = CallSet biz phone x"
    by (cases cl) simp_all
  from assms(2) True have "fst (LocalCodeCache_Set c now biz phone x) \<noteq> None"
    by (simp add: cl step_Set del: step.simps)
  then have "snd (LocalCodeCache_Set c now biz phone x) = c"
    by (rule Set_error_unchanged)
  with assms(1) show ?thesis by (simp add: cl step_Set del: step.simps)
qed

lemma spent_refuses:
  assumes "spent c (LocalCodeCache_key biz phone)"
  shows "refused (fst (step c now (CallVerify biz phone x)))"
proof (cases "cache_Get c now (LocalCodeCache_key biz phone)")
  case None
  then show ?thesis by (simp add: LocalCodeCache_Verify_def refused_def)
next
  case (Some obj)
  show ?thesis
  proof (cases obj)
    case Foreign
    with Some show ?thesis by (simp add: LocalCodeCache_Verify_def refused_def)
  next
    case (CodeValue v)
    with Some have found: "cache_Get c now (LocalCodeCache_key biz phone) = Some (CodeValue v)"
      by simp
    with assms have "times_v v \<le> 0"
      by (simp add: spent_def attempts_found)
    with found show ?thesis by (simp add: LocalCodeCache_Verify_def refused_def)
  qed
qed

lemma spent_refused_until_issue:
  "spent c k \<Longrightarrow> refused_until_issue k (replay c calls)"
proof (induction calls arbitrary: c)
  case Nil
  show ?case by simp
next
  case (Cons tc calls)
  obtain now cl where tc: "tc = (now, cl)" by (cases tc)
  show ?case
  proof (cases "issued_on k (cl, fst (step c now cl))")
    case True
    then show ?thesis unfolding tc by simp
  next
    case False
    with Cons.prems have "spent (snd (step c now cl)) k" by (rule spent_step)
    then have tail: "refused_until_issue k (replay (snd (step c now cl)) calls)"
      by (rule Cons.IH)
    have head: "is_Verify_on k cl \<Longrightarrow> refused (fst (step c now cl))"
    proof (cases cl)
      case (CallVerify biz phone x)
      assume "is_Verify_on k cl"
      with CallVerify have "k = LocalCodeCache_key biz phone" by simp
      with Cons.prems CallVerify show ?thesis
        using spent_refuses [of c biz phone now x] by simp
    qed simp_all
    from False head tail show ?thesis unfolding tc by simp
  qed
qed

lemma Verify_true_spent:
  assumes "LocalCodeCache_Verify c now biz phone x = ((True, None), c')"
  shows "spent c' (LocalCodeCache_key biz phone)"
  using assms
  by (auto simp: LocalCodeCache_Verify_def cache_Set_second spent_def attempts_upd Let_def
      split: option.splits stored.splits if_splits)

text \<open>
  C4: after a \<open>Verify\<close> that returned \<open>(true, nil)\<close> for a key, and along every
  history of later calls and janitor sweeps, every \<open>Verify\<close> on that key, with any
  input code and at any time, is refused (verdict false, with \<open>ErrUnknownForCode\<close> or
  \<open>ErrCodeVerifyTooManyTimes\<close>) until a \<open>Set\<close> on that key returns \<open>nil\<close> and so
  issues a new code. A \<open>Set\<close> on that key that is turned down changes nothing, and
  calls on other keys do not matter. In particular a repeated \<open>Verify\<close> with the same
  code is refused.
\<close>

theorem consumed_never_matches_again:
  assumes "LocalCodeCache_Verify c now biz phone inputCode = ((True, None), c')"
  shows "refused_until_issue (LocalCodeCache_key biz phone) (replay c' calls)
         \<and> (fst (LocalCodeCache_Verify c' later biz phone inputCode)
              = (False, Some ErrUnknownForCode)
            \<or> fst (LocalCodeCache_Verify c' later biz phone inputCode)
              = (False, Some ErrCodeVerifyTooManyTimes))"
proof -
  from assms have sp: "spent c' (LocalCodeCache_key biz phone)"
    by (rule Verify_true_spent)
  then have "refused_until_issue (LocalCodeCache_key biz phone) (replay c' calls)"
    by (rule spent_refused_until_issue)
  moreover from sp have "refused (fst (step c' later (CallVerify biz phone inputCode)))"
    by (rule spent_refuses)
  then have "fst (LocalCodeCache_Verify c' later biz phone inputCode)
              = (False, Some ErrUnknownForCode)
            \<or> fst (LocalCodeCache_Verify c' later biz phone inputCode)
              = (False, Some ErrCodeVerifyTooManyTimes)"
    by (auto simp: refused_def split: prod.splits)
  ultimately show ?thesis by simp
qed

theorem consumed_never_matches_again_witness:
  "LocalCodeCache_Verify scn_issued (10 * Second) ''login'' ''13800000000'' ''123456''
     = ((True, None), scn_consumed_early)
   \<and> refused_until_issue (LocalCodeCache_key ''login'' ''13800000000'')
        (replay scn_consumed_early scn_later_calls)
   \<and> map snd (replay scn_consumed_early scn_later_calls)
     = [SetReturned (Some ErrCodeSendTooMany),
        VerifyReturned False (Some ErrCodeVerifyTooManyTimes),
        VerifyReturned False (Some ErrCodeVerifyTooManyTimes),
        SetReturned None,
        Swept,
        VerifyReturned False (Some ErrUnknownForCode),
        SetReturned None,
        VerifyReturned True None]
   \<and> fst (LocalCodeCache_Verify scn_consumed_early (10 * Second + 1)
            ''login'' ''13800000000'' ''123456'') = (False, Some ErrCodeVerifyTooManyTimes)"
proof -
  have h: "LocalCodeCache_Verify scn_issued (10 * Second) ''login'' ''13800000000'' ''123456''
      = ((True, None), scn_consumed_early)"
    by (simp add: scn_consumed_early_eq scn_issued_eq local_defs)
  have outs: "map snd (replay scn_consumed_early scn_later_calls)
     = [SetReturned (Some ErrCodeSendTooMany),
        VerifyReturned False (Some ErrCodeVerifyTooManyTimes),
        VerifyReturned False (Some ErrCodeVerifyTooManyTimes),
        SetReturned None,
        Swept,
        VerifyReturned False (Some ErrUnknownForCode),
        SetReturned None,
        VerifyReturned True None]"
    by (simp add: scn_later_calls_def scn_consumed_early_eq local_defs cache_DeleteExpired_def
        Let_def)
  have dup: "fst (LocalCodeCache_Verify scn_consumed_early (10 * Second + 1)
            ''login'' ''13800000000'' ''123456'') = (False, Some ErrCodeVerifyTooManyTimes)"
    by (simp add: scn_consumed_early_eq local_defs)
  from h outs dup
    consumed_never_matches_again [OF h, of scn_later_calls "10 * Second + 1"]
  show ?thesis by simp
qed

subsection \<open>A consumed record and the cooldown\<close>

text \<open>
  C9, as the code has it: in the local backend, while the record consumed by a
  successful \<open>Verify\<close> is still found (up to one second after that \<open>Verify\<close>), it
  is the record the \<open>Verify\<close> found with its counter set to \<open>-1\<close> and its issuance
  timestamp unchanged, and a \<open>Set\<close> for the same key returns \<open>ErrCodeSendTooMany\<close>
  and changes nothing when fewer than 60 seconds have passed since that timestamp;
  otherwise it issues the new code. The cooldown test does not look at the counter.
  This holds at every instant, also where the int64 nanoseconds wrap.
\<close>

theorem Set_in_residual_window:
  assumes "cache_Get c t (LocalCodeCache_key biz phone) = Some (CodeValue v)"
    and "LocalCodeCache_Verify c t biz phone inputCode = ((True, None), c')"
    and "t \<le> now" and "now \<le> t + Second"
  shows "cache_Get c' now (LocalCodeCache_key biz phone) = Some (CodeValue (v\<lparr>times_v := - 1\<rparr>))
         \<and> LocalCodeCache_Set c' now biz phone code_in
           = (if Unix now - createTime v < 60 then (Some ErrCodeSendTooMany, c')
              else (None,
                    c'(LocalCodeCache_key biz phone \<mapsto>
                         \<lparr>Object = CodeValue \<lparr>code = code_in, times_v = 3, createTime = Unix now\<rparr>,
                          Expiration = UnixNano (now + 5 * Minute)\<rparr>)))"
proof -
  from assms(1,2) have c': "c' = c(LocalCodeCache_key biz phone \<mapsto>
      \<lparr>Object = CodeValue (v\<lparr>times_v := - 1\<rparr>), Expiration = UnixNano (t + Second)\<rparr>)"
    by (simp add: Verify_local_match)
  from assms(3) have "t + Second \<le> now + 2 ^ 63" by (simp add: Second_def)
  with assms(4) have "\<not> (0 < UnixNano (t + Second) \<and> UnixNano (t + Second) < UnixNano now)"
    by (rule UnixNano_window)
  with c' have found:
    "cache_Get c' now (LocalCodeCache_key biz phone) = Some (CodeValue (v\<lparr>times_v := - 1\<rparr>))"
    by (simp add: cache_Get_def Expired_def)
  then show ?thesis
    by (simp add: LocalCodeCache_Set_def cache_Set_minutes getValue_def Let_def)
qed

theorem Set_in_residual_window_witness:
  "cache_Get scn_issued (10 * Second) (LocalCodeCache_key ''login'' ''13800000000'')
     = Some (CodeValue \<lparr>code = ''123456'', times_v = 3, createTime = 0\<rparr>)
   \<and> LocalCodeCache_Verify scn_issued (10 * Second) ''login'' ''13800000000'' ''123456''
     = ((True, None), scn_consumed_early)
   \<and> 10 * Second \<le> 10 * Second + 500000000
   \<and> 10 * Second + 500000000 \<le> 10 * Second + Second
   \<and> cache_Get scn_consumed_early (10 * Second + 500000000)
        (LocalCodeCache_key ''login'' ''13800000000'')
     = Some (CodeValue \<lparr>code = ''123456'', times_v = - 1, createTime = 0\<rparr>)
   \<and> LocalCodeCache_Set scn_consumed_early (10 * Second + 500000000)
        ''login'' ''13800000000'' ''654321''
     = (Some ErrCodeSendTooMany, scn_consumed_early)"
proof -
  let ?v = "\<lparr>code = ''123456'', times_v = 3, createTime = 0\<rparr>"
  have g: "cache_Get scn_issued (10 * Second) (LocalCodeCache_key ''login'' ''13800000000'')
      = Some (CodeValue ?v)"
    by (simp add: scn_issued_eq key_concat store_defs time_defs UnixNano_def)
  have h: "LocalCodeCache_Verify scn_issued (10 * Second) ''login'' ''13800000000'' ''123456''
      = ((True, None), scn_consumed_early)"
    by (simp add: scn_consumed_early_eq scn_issued_eq local_defs)
  have t1: "10 * Second \<le> 10 * Second + 500000000" by (simp add: time_defs)
  have t2: "10 * Second + 500000000 \<le> 10 * Second + Second" by (simp add: time_defs)
  from g h t1 t2 Set_in_residual_window [OF g h t1 t2, of "''654321''"]
  show ?thesis by (simp add: time_defs)
qed

text \<open>
  Without the bound on the age of the record the statement fails: half a second after
  a \<open>Verify\<close> that consumed a record issued 100 seconds earlier, the consumed record
  is still found, and a \<open>Set\<close> for the same key returns \<open>nil\<close> and issues the new
  code.
\<close>

theorem residual_Set_can_succeed:
  "LocalCodeCache_Verify scn_issued (100 * Second) ''login'' ''13800000000'' ''123456''
     = ((True, None), scn_consumed)
   \<and> cache_Get scn_consumed (100 * Second + 500000000) (LocalCodeCache_key ''login'' ''13800000000'')
     = Some (CodeValue \<lparr>code = ''123456'', times_v = - 1, createTime = 0\<rparr>)
   \<and> LocalCodeCache_Set scn_consumed (100 * Second + 500000000) ''login'' ''13800000000'' ''654321''
     = (None,
        [''phone_code:login:13800000000'' \<mapsto>
           \<lparr>Object = CodeValue \<lparr>code = ''654321'', times_v = 3, createTime = 100\<rparr>,
            Expiration = 400500000000\<rparr>])
   \<and> fst (LocalCodeCache_Set scn_consumed (100 * Second + 500000000)
             ''login'' ''13800000000'' ''654321'') \<noteq> Some ErrCodeSendTooMany"
  by (simp add: scn_consumed_eq scn_issued_eq local_defs)

subsection \<open>Keys that collide\<close>

text \<open>
  C10: the key scheme is not injective. For every business \<open>biz\<close>, phone and string
  \<open>x\<close>, the pairs \<open>(biz + ":" + x, phone)\<close> and \<open>(biz, x + ":" + phone)\<close> differ and
  have the same cache key in both backends, so \<open>Set\<close> and \<open>Verify\<close> of the local
  backend treat the two pairs as one: they share the code, the cooldown and the
  attempts counter.
\<close>

theorem key_not_injective:
  "(biz @ '':'' @ x, phone) \<noteq> (biz, x @ '':'' @ phone)
   \<and> LocalCodeCache_key (biz @ '':'' @ x) phone = LocalCodeCache_key biz (x @ '':'' @ phone)
   \<and> RedisCodeCache_key (biz @ '':'' @ x) phone = RedisCodeCache_key biz (x @ '':'' @ phone)
   \<and> LocalCodeCache_Set c now (biz @ '':'' @ x) phone code_in
     = LocalCodeCache_Set c now biz (x @ '':'' @ phone) code_in
   \<and> LocalCodeCache_Verify c now (biz @ '':'' @ x) phone inputCode
     = LocalCodeCache_Verify c now biz (x @ '':'' @ phone) inputCode"
proof -
  have k: "LocalCodeCache_key (biz @ '':'' @ x) phone = LocalCodeCache_key biz (x @ '':'' @ phone)"
    by (simp add: key_concat)
  have r: "RedisCodeCache_key (biz @ '':'' @ x) phone = RedisCodeCache_key biz (x @ '':'' @ phone)"
    by (simp add: RedisCodeCache_key_def)
  from k r show ?thesis
    by (simp add: LocalCodeCache_Set_def LocalCodeCache_Verify_def)
qed

subsection \<open>A wrong code on the local backend\<close>

text \<open>
  C1, on the local backend at a concrete input: after
  \<open>Set("login", "13800000000", "123456")\<close>, \<open>Verify\<close> with the wrong code
  \<open>"000000"\<close> decrements the counter from 3 to 2 and stores the record with a fresh
  five-minute expiry, and it returns verdict false together with the error
  \<open>ErrUnknownForCode\<close>, not \<open>nil\<close>. \<open>RedisCodeCache.Verify\<close> maps the script's reply
  for a wrong code, \<open>-2\<close>, to \<open>(false, nil)\<close>.
\<close>

theorem local_mismatch_returns_error:
  "LocalCodeCache_Verify scn_issued (5 * Second) ''login'' ''13800000000'' ''000000''
     = ((False, Some ErrUnknownForCode),
        [''phone_code:login:13800000000'' \<mapsto>
           \<lparr>Object = CodeValue \<lparr>code = ''123456'', times_v = 2, createTime = 0\<rparr>,
            Expiration = 5 * Second + 5 * Minute\<rparr>])
   \<and> RedisCodeCache_Verify_reply (Inr (- 2)) = (False, None)"
  by (simp add: scn_issued_eq local_defs RedisCodeCache_Verify_reply_def)

text \<open>
  C2, on the local backend at a concrete input: after
  \<open>Set("login", "13800000000", "123456")\<close>, four calls of \<open>Verify\<close> with the wrong
  code \<open>"000000"\<close> return verdict false with \<open>ErrUnknownForCode\<close> three times, and
  the fourth returns \<open>ErrCodeVerifyTooManyTimes\<close>. The counter goes from 3 to 2, 1
  and 0, one step per wrong code, and stays at 0 after the fourth call. None of the
  first calls returns \<open>(false, nil)\<close>.
\<close>

theorem three_wrong_codes_local:
  "map snd (replay scn_issued
       [wrong_at (1 * Second), wrong_at (2 * Second), wrong_at (3 * Second), wrong_at (4 * Second)])
     = [VerifyReturned False (Some ErrUnknownForCode),
        VerifyReturned False (Some ErrUnknownForCode),
        VerifyReturned False (Some ErrUnknownForCode),
        VerifyReturned False (Some ErrCodeVerifyTooManyTimes)]
   \<and> attempts scn_issued ''phone_code:login:13800000000'' = Some 3
   \<and> attempts (after scn_issued [wrong_at (1 * Second)]) ''phone_code:login:13800000000'' = Some 2
   \<and> attempts (after scn_issued [wrong_at (1 * Second), wrong_at (2 * Second)])
        ''phone_code:login:13800000000'' = Some 1
   \<and> attempts (after scn_issued [wrong_at (1 * Second), wrong_at (2 * Second), wrong_at (3 * Second)])
        ''phone_code:login:13800000000'' = Some 0
   \<and> attempts (after scn_issued
        [wrong_at (1 * Second), wrong_at (2 * Second), wrong_at (3 * Second), wrong_at (4 * Second)])
        ''phone_code:login:13800000000'' = Some 0"
  by (simp add: wrong_at_def scn_issued_eq local_defs attempts_def)

end
